theory Spec2Isabelle
  imports Main
begin

section \<open>The account record of dop-buddy (db/models/account.py)\<close>

subsection \<open>Python values: truthiness and string formatting\<close>

text \<open>
  The columns of an \<open>Account\<close> hold a string, an integer or \<open>None\<close>. A condition
  \<^verbatim>\<open>if self.x:\<close> and its negation \<^verbatim>\<open>if not field:\<close> test Python's truthiness: \<open>None\<close>,
  the empty string and the integer \<open>0\<close> are false, every other value is true.
\<close>

datatype field = NoneV | StrV string | IntV int

fun truthy :: "field \<Rightarrow> bool" where
  "truthy NoneV = False"
| "truthy (StrV s) = (s \<noteq> [])"
| "truthy (IntV n) = (n \<noteq> 0)"

definition str_field :: "string option \<Rightarrow> field" where
  "str_field x = (case x of None \<Rightarrow> NoneV | Some s \<Rightarrow> StrV s)"

definition int_field :: "int option \<Rightarrow> field" where
  "int_field x = (case x of None \<Rightarrow> NoneV | Some n \<Rightarrow> IntV n)"

abbreviation truthy_str :: "string option \<Rightarrow> bool" where
  "truthy_str x \<equiv> truthy (str_field x)"

abbreviation truthy_int :: "int option \<Rightarrow> bool" where
  "truthy_int x \<equiv> truthy (int_field x)"

text \<open>
  \<open>str_id\<close> is what the f-string \<^verbatim>\<open>f"... {self.id}"\<close> prints for the identifier: the
  decimal numeral of an integer, \<open>None\<close> for \<open>None\<close>.
\<close>

fun digits :: "nat \<Rightarrow> string" where
  "digits n =
     (if n < 10 then [''0123456789'' ! n]
      else digits (n div 10) @ [''0123456789'' ! (n mod 10)])"

declare digits.simps [simp del]

definition str_int :: "int \<Rightarrow> string" where
  "str_int i = (if i < 0 then CHR ''-'' # digits (nat (- i)) else digits (nat i))"

definition str_id :: "int option \<Rightarrow> string" where
  "str_id x = (case x of None \<Rightarrow> ''None'' | Some i \<Rightarrow> str_int i)"

subsection \<open>The data model\<close>

text \<open>
  Class \<open>Account\<close>, table \<open>accounts\<close>: the primary key \<open>id\<close> (here \<open>acc_id\<close>, since \<open>id\<close>
  is the identity function of HOL) and the seven data columns. An attribute that was never
  set is \<open>None\<close>.
\<close>

record Account =
  acc_id :: "int option"
  account_number :: "string option"
  account_type :: "string option"
  depositor_1 :: "string option"
  depositor_2 :: "string option"
  amount :: "int option"
  maturity_date :: "string option"
  agent :: "string option"

text \<open>
  Modelled from the spec: the enumeration \<open>AccountType\<close> of module \<open>enums\<close>, which is
  imported by the source and not part of it. The spec gives it the two members SINGLE and
  JOINT; the column \<open>account_type\<close> is a string column, so a member is taken to stand for its
  string value, and \<^verbatim>\<open>self.account_type == AccountType.JOINT\<close> compares with that value.
  The two values are parameters of every operation: nothing below depends on how they are
  spelled.
\<close>

record AccountType =
  SINGLE :: string
  JOINT :: string

text \<open>
  The exceptions. \<open>ValueError m\<close> is a \<open>ValueError\<close> raised by the source itself with
  message \<open>m\<close>. \<open>EnumValueError v\<close> is the \<open>ValueError\<close> that the call
  \<^verbatim>\<open>AccountType(v)\<close> raises inside Python's enum machinery when \<open>v\<close> is the value of no
  member (its message is composed there and is not modelled). \<open>IntegrityError\<close> is the
  error of the storage backend for a row that breaks a constraint of the table.
\<close>

datatype error =
    ValueError string
  | EnumValueError "string option"
  | IntegrityError

text \<open>The coercion \<^verbatim>\<open>AccountType(v)\<close>: lookup of a member by value.\<close>

definition AccountType_call :: "AccountType \<Rightarrow> string option \<Rightarrow> error + string" where
  "AccountType_call AT v =
     (case v of
        None \<Rightarrow> Inl (EnumValueError None)
      | Some s \<Rightarrow> if s = SINGLE AT \<or> s = JOINT AT then Inr s else Inl (EnumValueError (Some s)))"

subsection \<open>The storage backend\<close>

text \<open>
  The table is the list of its rows. A session works on its own copy of the table, which
  the scope either commits or rolls back.
\<close>

type_synonym table = "Account list"

text \<open>
  \<^verbatim>\<open>session.query(Account).filter_by(id=i).first()\<close>: the first row with that primary key.
  The comparison \<open>id = NULL\<close> of SQL selects no row.
\<close>

definition first_by_id :: "table \<Rightarrow> int option \<Rightarrow> Account option" where
  "first_by_id s i = (case i of None \<Rightarrow> None | Some k \<Rightarrow> find (\<lambda>r. acc_id r = Some k) s)"

text \<open>
  The row that \<open>first\<close> returned is an object of the session: assigning to its attributes
  changes the row in the session's table. \<open>put_row i a s\<close> is the table with that row
  (the first with key \<open>i\<close>) in state \<open>a\<close>.
\<close>

fun put_row :: "int option \<Rightarrow> Account \<Rightarrow> table \<Rightarrow> table" where
  "put_row i a [] = []"
| "put_row i a (r # rs) = (if acc_id r = i then a # rs else r # put_row i a rs)"

text \<open>
  The key that storage assigns to a new row is decided by the database engine, not by the
  source. It is modelled by the usual rule of an integer primary key: one more than the
  largest key in use, and 1 in an empty table (the spec's example, where the first \<open>save\<close>
  returns 1). The properties below only use that this key belongs to no stored row.
\<close>

fun next_id :: "int list \<Rightarrow> int" where
  "next_id [] = 1"
| "next_id (k # ks) = fold max ks k + 1"

definition ids :: "table \<Rightarrow> int list" where
  "ids s = concat (map (\<lambda>r. case acc_id r of None \<Rightarrow> [] | Some k \<Rightarrow> [k]) s)"

text \<open>
  The constraints that the column declarations put on a new row: the columns declared
  \<open>nullable=False\<close> are not \<open>None\<close>, \<open>account_number\<close> is \<open>unique\<close>, \<open>id\<close> is the primary key.
  The declared lengths \<open>String(n)\<close> are not enforced.
\<close>

definition null_violation :: "Account \<Rightarrow> bool" where
  "null_violation a =
     (account_number a = None \<or> account_type a = None \<or> depositor_1 a = None \<or>
      amount a = None \<or> maturity_date a = None \<or> agent a = None)"

text \<open>
  \<^verbatim>\<open>session.add(self); session.flush(); _id = self.id\<close>: the INSERT. A row that breaks a
  constraint raises; otherwise the row is appended, under its own key when the instance
  has one and under a new key otherwise, and the key is returned.
\<close>

definition add_flush :: "Account \<Rightarrow> table \<Rightarrow> (error + int) \<times> table" where
  "add_flush self s =
     (if null_violation self \<or> list_ex (\<lambda>r. account_number r = account_number self) s
      then (Inl IntegrityError, s)
      else (case acc_id self of
              None \<Rightarrow> (let k = next_id (ids s) in (Inr k, s @ [self\<lparr>acc_id := Some k\<rparr>]))
            | Some k \<Rightarrow> if k \<in> set (ids s) then (Inl IntegrityError, s)
                        else (Inr k, s @ [self])))"

text \<open>
  The UPDATE statements of a commit: \<open>changed_numbers db s\<close> are the new account numbers
  of the rows whose \<open>account_number\<close> the session changed, and the commit breaks the
  \<open>unique\<close> constraint when another row of the session's table holds one of them.
\<close>

definition changed_numbers :: "table \<Rightarrow> table \<Rightarrow> string option list" where
  "changed_numbers db s =
     map (\<lambda>p. account_number (snd p))
       (filter (\<lambda>p. account_number (snd p) \<noteq> account_number (fst p)) (zip db s))"

definition unique_violation :: "table \<Rightarrow> table \<Rightarrow> bool" where
  "unique_violation db s =
     list_ex (\<lambda>n. 1 < count_list (map account_number s) n) (changed_numbers db s)"

text \<open>
  Modelled from the spec: \<open>get_scoped_session\<close> of \<open>db.client\<close>, which the source calls
  and does not contain. The spec: a scoped session is a transactional unit of work that
  commits on scope exit and rolls back on failure. The body runs on the session's table;
  an exception of the body, or of the commit, leaves the stored table as it was.
\<close>

definition get_scoped_session ::
  "(table \<Rightarrow> (error + 'a) \<times> table) \<Rightarrow> table \<Rightarrow> (error + 'a) \<times> table" where
  "get_scoped_session body db =
     (case body db of
        (Inl e, s) \<Rightarrow> (Inl e, db)
      | (Inr v, s) \<Rightarrow> if unique_violation db s then (Inl IntegrityError, db) else (Inr v, s))"

subsection \<open>Validation\<close>

text \<open>
  \<open>_is_valid_joint_account\<close>: the coercion may raise; a joint account without a second
  depositor is invalid. The member \<open>acc_type\<close> is the string \<open>self.account_type\<close> itself,
  which the message prints.
\<close>

definition is_valid_joint_account :: "AccountType \<Rightarrow> Account \<Rightarrow> error + (bool \<times> string)" where
  "is_valid_joint_account AT self =
     (case AccountType_call AT (account_type self) of
        Inl e \<Rightarrow> Inl e
      | Inr acc_type \<Rightarrow>
          if acc_type = JOINT AT \<and> \<not> truthy_str (depositor_2 self)
          then Inr (False, ''Since account type is '' @ acc_type @ '', hence 2nd depositor is must'')
          else Inr (True, ''''))"

text \<open>
  \<open>_is_valid\<close>: the loop over \<open>required_fields\<close> returns at the first field that is not
  true; \<open>required_loop\<close> is \<open>None\<close> when the loop runs to its end.
\<close>

definition required_fields :: "Account \<Rightarrow> field list" where
  "required_fields self =
     [str_field (account_number self), str_field (account_type self),
      str_field (depositor_1 self), int_field (amount self),
      str_field (maturity_date self), str_field (agent self)]"

fun required_loop :: "field list \<Rightarrow> (bool \<times> string) option" where
  "required_loop [] = None"
| "required_loop (f # fs) =
     (if \<not> truthy f then Some (False, ''Please make sure required fields are filled correctly!'')
      else required_loop fs)"

definition is_valid :: "AccountType \<Rightarrow> Account \<Rightarrow> error + (bool \<times> string)" where
  "is_valid AT self =
     (case required_loop (required_fields self) of
        Some r \<Rightarrow> Inr r
      | None \<Rightarrow> is_valid_joint_account AT self)"

subsection \<open>save\<close>

definition save :: "AccountType \<Rightarrow> Account \<Rightarrow> table \<Rightarrow> (error + int) \<times> table" where
  "save AT self db =
     (case is_valid AT self of
        Inl e \<Rightarrow> (Inl e, db)
      | Inr (ok, error_message) \<Rightarrow>
          if ok then get_scoped_session (add_flush self) db
          else (Inl (ValueError error_message), db))"

subsection \<open>update\<close>

text \<open>
  The assignments of \<open>update\<close> to the loaded row \<open>account\<close>, in the order of the source.
  The result is the exception, if one is raised, and the row as the session holds it at that
  moment: the \<open>raise\<close> of the joint rule comes after \<open>account_number\<close> and \<open>account_type\<close>
  were assigned.
\<close>

definition update_type :: "AccountType \<Rightarrow> Account \<Rightarrow> Account \<Rightarrow> error option \<times> Account" where
  "update_type AT self account =
     (if truthy_str (account_type self) then
        (let a = account\<lparr>account_type := account_type self\<rparr> in
         if account_type self = Some (JOINT AT) then
           (if \<not> truthy_str (depositor_2 self)
            then (Some (ValueError ''Since account type is joint, hence 2nd depositor is must''), a)
            else (None, a\<lparr>depositor_2 := depositor_2 self\<rparr>))
         else (None, a\<lparr>depositor_2 := None\<rparr>))
      else (None, account))"

definition update_row :: "AccountType \<Rightarrow> Account \<Rightarrow> Account \<Rightarrow> (error + unit) \<times> Account" where
  "update_row AT self account =
     (let a1 = (if truthy_str (account_number self)
                then account\<lparr>account_number := account_number self\<rparr> else account)
      in case update_type AT self a1 of
           (Some e, a2) \<Rightarrow> (Inl e, a2)
         | (None, a2) \<Rightarrow>
            (let a3 = (if truthy_str (depositor_1 self)
                       then a2\<lparr>depositor_1 := depositor_1 self\<rparr> else a2);
                 a4 = (if truthy_int (amount self) then a3\<lparr>amount := amount self\<rparr> else a3);
                 a5 = (if truthy_str (maturity_date self)
                       then a4\<lparr>maturity_date := maturity_date self\<rparr> else a4);
                 a6 = (if truthy_str (agent self) then a5\<lparr>agent := agent self\<rparr> else a5)
             in (Inr (), a6)))"

text \<open>The body of the \<open>with\<close> block of \<open>update\<close>, on the session's table.\<close>

definition update_body :: "AccountType \<Rightarrow> Account \<Rightarrow> table \<Rightarrow> (error + unit) \<times> table" where
  "update_body AT self s =
     (case first_by_id s (acc_id self) of
        None \<Rightarrow> (Inl (ValueError (''Unknown account id: '' @ str_id (acc_id self))), s)
      | Some account \<Rightarrow>
          (case update_row AT self account of
             (r, account') \<Rightarrow> (r, put_row (acc_id self) account' s)))"

definition update :: "AccountType \<Rightarrow> Account \<Rightarrow> table \<Rightarrow> (error + unit) \<times> table" where
  "update AT self db = get_scoped_session (update_body AT self) db"

subsection \<open>Example data\<close>

text \<open>
  The row of the class docstring (a single account that names a second depositor), as an
  instance that was not stored yet, and an enumeration with lower-case values.
\<close>

definition example_AccountType :: AccountType where
  "example_AccountType = \<lparr>SINGLE = ''single'', JOINT = ''joint''\<rparr>"

definition example_account :: Account where
  "example_account =
     \<lparr>acc_id = None, account_number = Some ''1000034567'', account_type = Some ''single'',
      depositor_1 = Some ''Ram'', depositor_2 = Some ''Sita'', amount = Some 2000,
      maturity_date = Some ''20-02-2027'', agent = Some ''3197''\<rparr>"

text \<open>The table that holds this row under key 1.\<close>

definition example_table :: table where
  "example_table = [example_account\<lparr>acc_id := Some 1\<rparr>]"

text \<open>The same table with the row turned into a joint account of Ram and Sita.\<close>

definition example_joint_table :: table where
  "example_joint_table = [example_account\<lparr>acc_id := Some 1, account_type := Some ''joint''\<rparr>]"

text \<open>
  A table of two rows: the joint account of Ram and Sita under key 1, and under key 2 a
  single account with another account number.
\<close>

definition example_two_table :: table where
  "example_two_table =
     [example_account\<lparr>acc_id := Some 1, account_type := Some ''joint''\<rparr>,
      example_account\<lparr>acc_id := Some 2, account_number := Some ''2000034567'',
                      depositor_2 := None\<rparr>]"

section \<open>Properties\<close>

subsection \<open>Truthiness\<close>

lemma truthy_str_iff: "truthy_str x \<longleftrightarrow> (\<exists>s. x = Some s \<and> s \<noteq> [])"
  by (cases x) (simp_all add: str_field_def)

lemma truthy_int_iff: "truthy_int x \<longleftrightarrow> (\<exists>n. x = Some n \<and> n \<noteq> 0)"
  by (cases x) (simp_all add: int_field_def)

subsection \<open>Rows and keys\<close>

lemma first_by_id_acc_id: "first_by_id s i = Some r \<Longrightarrow> acc_id r = i"
  by (cases i) (auto simp: first_by_id_def find_Some_iff)

lemma first_by_id_put_row:
  "first_by_id s i = Some r \<Longrightarrow> acc_id a = i \<Longrightarrow> first_by_id (put_row i a s) i = Some a"
proof (induction s)
  case Nil
  then show ?case by (cases i) (simp_all add: first_by_id_def)
next
  case (Cons x xs)
  then show ?case by (cases i) (auto simp: first_by_id_def split: if_splits)
qed

lemma map_put_row:
  "first_by_id s i = Some r \<Longrightarrow> f a = f r \<Longrightarrow> map f (put_row i a s) = map f s"
proof (induction s)
  case Nil
  then show ?case by simp
next
  case (Cons x xs)
  then show ?case by (cases i) (auto simp: first_by_id_def split: if_splits)
qed

lemma length_put_row: "length (put_row i a s) = length s"
  by (induction s) simp_all

lemma ids_iff: "k \<in> set (ids s) \<longleftrightarrow> (\<exists>r\<in>set s. acc_id r = Some k)"
  by (induction s) (auto simp: ids_def split: option.splits)

text \<open>The key of a new row is larger than every key in use.\<close>

lemma next_id_fresh: "next_id ks \<notin> set ks"
proof (cases ks)
  case Nil
  then show ?thesis by simp
next
  case (Cons k ks')
  have "Max (set (k # ks')) = fold max ks' k" by (rule Max.set_eq_fold)
  moreover have "\<forall>x\<in>set (k # ks'). x \<le> Max (set (k # ks'))" by simp
  ultimately have "\<forall>x\<in>set (k # ks'). x < next_id (k # ks')" by auto
  with Cons show ?thesis by auto
qed

subsection \<open>The unique constraint at commit\<close>

lemma changed_numbers_same:
  "length s = length db \<Longrightarrow> map account_number s = map account_number db \<Longrightarrow>
   changed_numbers db s = []"
proof (induction db s rule: list_induct2')
  case (4 x xs y ys)
  then show ?case by (simp add: changed_numbers_def)
qed (simp_all add: changed_numbers_def)

lemma changed_numbers_append: "changed_numbers db (db @ rs) = []"
  by (induction db) (simp_all add: changed_numbers_def)

lemma changed_numbers_refl: "changed_numbers s s = []"
  using changed_numbers_append [of s "[]"] by simp

lemma no_violation_same_number:
  assumes "first_by_id s i = Some r" and "account_number a = account_number r"
  shows "\<not> unique_violation s (put_row i a s)"
proof -
  have "map account_number (put_row i a s) = map account_number s"
    using assms by (rule map_put_row)
  then have "changed_numbers s (put_row i a s) = []"
    by (simp add: changed_numbers_same length_put_row)
  then show ?thesis by (simp add: unique_violation_def)
qed

lemma changed_numbers_put_row: "set (changed_numbers s (put_row i a s)) \<subseteq> {account_number a}"
proof (induction s)
  case Nil
  then show ?case by (simp add: changed_numbers_def)
next
  case (Cons r rs)
  show ?case
  proof (cases "acc_id r = i")
    case True
    have "changed_numbers (r # rs) (a # rs) =
            (if account_number a \<noteq> account_number r then [account_number a] else [])
            @ changed_numbers rs rs"
      by (simp add: changed_numbers_def)
    with True show ?thesis by (auto simp: changed_numbers_refl)
  next
    case False
    have "changed_numbers (r # rs) (r # put_row i a rs) = changed_numbers rs (put_row i a rs)"
      by (simp add: changed_numbers_def)
    with False Cons show ?thesis by simp
  qed
qed

lemma count_put_row:
  "account_number a \<notin> account_number ` set s \<Longrightarrow>
   count_list (map account_number (put_row i a s)) (account_number a) \<le> 1"
  by (induction s) auto

lemma no_violation_free_number:
  assumes "account_number a \<notin> account_number ` set s"
  shows "\<not> unique_violation s (put_row i a s)"
proof
  assume "unique_violation s (put_row i a s)"
  then obtain n where n: "n \<in> set (changed_numbers s (put_row i a s))"
    and c: "1 < count_list (map account_number (put_row i a s)) n"
    by (auto simp: unique_violation_def list_ex_iff)
  from n changed_numbers_put_row [of s i a] have "n = account_number a" by auto
  with c count_put_row [OF assms, of i] show False by simp
qed

subsection \<open>The scoped session\<close>

lemma scoped_Inl:
  "fst (get_scoped_session body db) = Inl e \<Longrightarrow> snd (get_scoped_session body db) = db"
  by (auto simp: get_scoped_session_def split: prod.splits sum.splits if_splits)

lemma scoped_Inr:
  "fst (get_scoped_session body db) = Inr v \<Longrightarrow>
     body db = (Inr v, snd (get_scoped_session body db)) \<and>
     \<not> unique_violation db (snd (body db))"
  by (auto simp: get_scoped_session_def split: prod.splits sum.splits if_splits)

lemma scoped_ok:
  "body db = (Inr v, s) \<Longrightarrow> \<not> unique_violation db s \<Longrightarrow>
   get_scoped_session body db = (Inr v, s)"
  by (simp add: get_scoped_session_def)

subsection \<open>What update assigns to the loaded row\<close>

lemma update_body_Inr:
  assumes "update_body AT self st = (Inr u, s)"
  shows "\<exists>account a'. first_by_id st (acc_id self) = Some account \<and>
           update_row AT self account = (Inr (), a') \<and> s = put_row (acc_id self) a' st"
  using assms by (auto simp: update_body_def split: option.splits prod.splits)

lemma update_row_acc_id: "acc_id (snd (update_row AT self a)) = acc_id a"
  by (simp add: update_row_def update_type_def Let_def split: prod.splits option.splits)

lemma update_row_depositor_2:
  "update_row AT self a = (Inr u, a') \<Longrightarrow>
     depositor_2 a' =
       (if truthy_str (account_type self)
        then (if account_type self = Some (JOINT AT) then depositor_2 self else None)
        else depositor_2 a)"
  by (auto simp: update_row_def update_type_def Let_def split: if_splits)

lemma update_row_account_type:
  "update_row AT self a = (Inr u, a') \<Longrightarrow>
     account_type a' =
       (if truthy_str (account_type self) then account_type self else account_type a)"
  by (auto simp: update_row_def update_type_def Let_def split: if_splits)

lemma update_row_account_number:
  "account_number (snd (update_row AT self a)) =
     (if truthy_str (account_number self) then account_number self else account_number a)"
  by (simp add: update_row_def update_type_def Let_def split: prod.splits option.splits)

lemma update_row_joint_fails:
  "account_type self = Some (JOINT AT) \<Longrightarrow> truthy_str (account_type self) \<Longrightarrow>
   \<not> truthy_str (depositor_2 self) \<Longrightarrow>
   fst (update_row AT self a) =
     Inl (ValueError ''Since account type is joint, hence 2nd depositor is must'')"
  by (simp add: update_row_def update_type_def Let_def)

lemma update_row_succeeds:
  "account_type self = Some (JOINT AT) \<longrightarrow> truthy_str (depositor_2 self) \<Longrightarrow>
   fst (update_row AT self a) = Inr ()"
  by (auto simp: update_row_def update_type_def Let_def)

subsection \<open>A successful update\<close>

text \<open>
  When \<open>update\<close> returns, the row was found, all assignments were made, and the stored
  table is the one before the call with that row replaced.
\<close>

lemma update_Inr:
  assumes "fst (update AT self st) = Inr u"
  shows "\<exists>account a'. first_by_id st (acc_id self) = Some account \<and>
           update_row AT self account = (Inr (), a') \<and>
           snd (update AT self st) = put_row (acc_id self) a' st \<and>
           first_by_id (snd (update AT self st)) (acc_id self) = Some a'"
proof -
  from assms have b: "update_body AT self st = (Inr u, snd (update AT self st))"
    unfolding update_def by (rule scoped_Inr [THEN conjunct1])
  from update_body_Inr [OF b] obtain account a' where
    f: "first_by_id st (acc_id self) = Some account" and
    r: "update_row AT self account = (Inr (), a')" and
    s: "snd (update AT self st) = put_row (acc_id self) a' st"
    by blast
  from r update_row_acc_id [of AT self account] have "acc_id a' = acc_id account" by simp
  with f have "acc_id a' = acc_id self" by (simp add: first_by_id_acc_id)
  with f have "first_by_id (put_row (acc_id self) a' st) (acc_id self) = Some a'"
    by (rule first_by_id_put_row)
  with f r s show ?thesis by simp
qed

text \<open>
  The commit of an update can only fail on the \<open>unique\<close> constraint: it succeeds when the
  instance sets no account number, or one that no stored row holds.
\<close>

lemma update_succeeds:
  assumes f: "first_by_id st (acc_id self) = Some account"
    and r: "fst (update_row AT self account) = Inr ()"
    and n: "\<not> truthy_str (account_number self) \<or>
            account_number self \<notin> account_number ` set st"
  shows "update AT self st =
           (Inr (), put_row (acc_id self) (snd (update_row AT self account)) st)"
proof -
  let ?a = "snd (update_row AT self account)"
  from f r have b: "update_body AT self st = (Inr (), put_row (acc_id self) ?a st)"
    by (simp add: update_body_def case_prod_beta)
  have "\<not> unique_violation st (put_row (acc_id self) ?a st)"
  proof (cases "truthy_str (account_number self)")
    case True
    with n have "account_number ?a \<notin> account_number ` set st"
      by (simp add: update_row_account_number)
    then show ?thesis by (rule no_violation_free_number)
  next
    case False
    then have "account_number ?a = account_number account"
      by (simp add: update_row_account_number)
    with f show ?thesis by (rule no_violation_same_number)
  qed
  with b show ?thesis unfolding update_def by (rule scoped_ok)
qed

lemma update_row_ignores_depositor_2:
  "\<not> truthy_str (account_type self) \<Longrightarrow>
   update_row AT (self\<lparr>depositor_2 := d\<rparr>) a = update_row AT self a"
  by (simp add: update_row_def update_type_def Let_def cong: if_cong)

subsection \<open>An update without account type, and one that breaks the joint rule\<close>

lemma update_frame_without_type:
  assumes "\<not> truthy_str (account_type self)"
  shows "map depositor_2 (snd (update AT self st)) = map depositor_2 st \<and>
         map account_type (snd (update AT self st)) = map account_type st"
proof (cases "fst (update AT self st)")
  case (Inl e)
  then have "snd (update AT self st) = st"
    unfolding update_def by (rule scoped_Inl)
  then show ?thesis by simp
next
  case (Inr u)
  from update_Inr [OF Inr] obtain account a' where
    f: "first_by_id st (acc_id self) = Some account" and
    r: "update_row AT self account = (Inr (), a')" and
    s: "snd (update AT self st) = put_row (acc_id self) a' st"
    by blast
  from update_row_depositor_2 [OF r] assms have "depositor_2 a' = depositor_2 account"
    by simp
  with f have d: "map depositor_2 (put_row (acc_id self) a' st) = map depositor_2 st"
    by (rule map_put_row)
  from update_row_account_type [OF r] assms have "account_type a' = account_type account"
    by simp
  with f have "map account_type (put_row (acc_id self) a' st) = map account_type st"
    by (rule map_put_row)
  with d s show ?thesis by simp
qed

lemma update_body_joint_fails:
  assumes f: "first_by_id st (acc_id self) = Some row"
    and t: "truthy_str (account_type self)" and j: "account_type self = Some (JOINT AT)"
    and d: "\<not> truthy_str (depositor_2 self)"
  shows "update_body AT self st =
           (Inl (ValueError ''Since account type is joint, hence 2nd depositor is must''),
            put_row (acc_id self) (snd (update_row AT self row)) st)"
  using f update_row_joint_fails [OF j t d, of row]
  by (simp add: update_body_def case_prod_beta)

lemma update_joint_fails:
  assumes t: "truthy_str (account_type self)" and j: "account_type self = Some (JOINT AT)"
    and d: "\<not> truthy_str (depositor_2 self)"
  shows "update AT self st =
           (case first_by_id st (acc_id self) of
              None \<Rightarrow> (Inl (ValueError (''Unknown account id: '' @ str_id (acc_id self))), st)
            | Some row \<Rightarrow>
               (Inl (ValueError ''Since account type is joint, hence 2nd depositor is must''), st))"
proof (cases "first_by_id st (acc_id self)")
  case None
  then show ?thesis by (simp add: update_def get_scoped_session_def update_body_def)
next
  case (Some row)
  from update_body_joint_fails [OF Some t j d] Some show ?thesis
    by (simp add: update_def get_scoped_session_def)
qed

subsection \<open>Validation and save\<close>

lemma required_loop_None: "required_loop fs = None \<longleftrightarrow> list_all truthy fs"
  by (induction fs) simp_all

lemma required_loop_Some:
  "\<not> list_all truthy fs \<Longrightarrow>
   required_loop fs = Some (False, ''Please make sure required fields are filled correctly!'')"
  by (induction fs) simp_all

lemma required_not_null:
  "list_all truthy (required_fields self) \<Longrightarrow> \<not> null_violation self"
  by (auto simp: required_fields_def null_violation_def truthy_str_iff truthy_int_iff)

lemma save_Inl:
  assumes "fst (save AT self st) = Inl e"
  shows "snd (save AT self st) = st"
proof (cases "is_valid AT self")
  case (Inl e')
  then show ?thesis by (simp add: save_def)
next
  case (Inr r)
  obtain ok m where r: "r = (ok, m)" by (cases r)
  show ?thesis
  proof (cases ok)
    case True
    with Inr r have "save AT self st = get_scoped_session (add_flush self) st"
      by (simp add: save_def)
    with assms show ?thesis by (simp add: scoped_Inl)
  next
    case False
    with Inr r show ?thesis by (simp add: save_def)
  qed
qed

lemma required_loop_False: "required_loop fs = Some (ok, m) \<Longrightarrow> \<not> ok"
  by (induction fs) (auto split: if_splits)

lemma is_valid_True:
  assumes "is_valid AT self = Inr (True, m)" and "account_type self = Some (JOINT AT)"
  shows "truthy_str (depositor_2 self)"
proof -
  from assms(1) have "is_valid_joint_account AT self = Inr (True, m)"
    by (auto simp: is_valid_def split: option.splits dest: required_loop_False)
  with assms(2) show ?thesis
    by (auto simp: is_valid_joint_account_def AccountType_call_def split: if_splits)
qed

lemma add_flush_Inr:
  "add_flush self st = (Inr k, s) \<Longrightarrow> s = st @ [self\<lparr>acc_id := Some k\<rparr>]"
  by (auto simp: add_flush_def Let_def split: if_splits option.splits)

lemma save_Inr:
  assumes "fst (save AT self st) = Inr k"
  shows "(\<exists>m. is_valid AT self = Inr (True, m)) \<and>
         snd (save AT self st) = st @ [self\<lparr>acc_id := Some k\<rparr>]"
proof (cases "is_valid AT self")
  case (Inl e)
  with assms show ?thesis by (simp add: save_def)
next
  case (Inr r)
  obtain ok m where r: "r = (ok, m)" by (cases r)
  show ?thesis
  proof (cases ok)
    case True
    with Inr r have s: "save AT self st = get_scoped_session (add_flush self) st"
      by (simp add: save_def)
    with assms have "add_flush self st = (Inr k, snd (save AT self st))"
      by (simp add: scoped_Inr)
    then have "snd (save AT self st) = st @ [self\<lparr>acc_id := Some k\<rparr>]"
      by (rule add_flush_Inr)
    with Inr r True show ?thesis by simp
  next
    case False
    with Inr r assms show ?thesis by (simp add: save_def)
  qed
qed

lemma is_valid_single:
  assumes "list_all truthy (required_fields self)"
    and "account_type self = Some (SINGLE AT)" and "SINGLE AT \<noteq> JOINT AT"
  shows "is_valid AT self = Inr (True, '''')"
proof -
  from assms(1) have "required_loop (required_fields self) = None"
    by (simp add: required_loop_None)
  with assms(2,3) show ?thesis
    by (simp add: is_valid_def is_valid_joint_account_def AccountType_call_def)
qed

lemma is_valid_joint_missing:
  assumes "list_all truthy (required_fields self)"
    and "account_type self = Some (JOINT AT)" and "\<not> truthy_str (depositor_2 self)"
  shows "is_valid AT self =
           Inr (False, ''Since account type is '' @ JOINT AT @ '', hence 2nd depositor is must'')"
proof -
  from assms(1) have "required_loop (required_fields self) = None"
    by (simp add: required_loop_None)
  with assms(2,3) show ?thesis
    by (simp add: is_valid_def is_valid_joint_account_def AccountType_call_def)
qed

section \<open>The claims\<close>

text \<open>
  C1, as stated, fails for \<open>save\<close>: validation only asks a joint account for a second
  depositor. The row of the class docstring, a single account with the second depositor
  Sita, is saved as it is.
\<close>

theorem joint_invariant_counterexample:
  "save example_AccountType example_account [] =
     (Inr 1, [example_account\<lparr>acc_id := Some 1\<rparr>]) \<and>
   account_type (example_account\<lparr>acc_id := Some 1\<rparr>) \<noteq> Some (JOINT example_AccountType) \<and>
   truthy_str (depositor_2 (example_account\<lparr>acc_id := Some 1\<rparr>))"
  by (simp add: save_def is_valid_def required_fields_def is_valid_joint_account_def
        AccountType_call_def example_account_def example_AccountType_def str_field_def
        int_field_def get_scoped_session_def add_flush_def null_violation_def ids_def
        unique_violation_def changed_numbers_def)

text \<open>
  C1, amended. A row stored by a successful \<open>save\<close> is the instance under its new key, and
  if its \<open>account_type\<close> is JOINT its \<open>depositor_2\<close> is populated (a row that is not JOINT
  may carry a \<open>depositor_2\<close>). A row modified by a successful \<open>update\<close> whose instance has a
  non-empty \<open>account_type\<close> has \<open>depositor_2\<close> populated if and only if its \<open>account_type\<close>
  is JOINT. An \<open>update\<close> whose instance has an empty \<open>account_type\<close> leaves the
  \<open>account_type\<close> and the \<open>depositor_2\<close> of every stored row as they were.
\<close>

theorem joint_invariant_amended:
  "(fst (save AT a st) = Inr k \<longrightarrow>
      snd (save AT a st) = st @ [a\<lparr>acc_id := Some k\<rparr>] \<and>
      (account_type (a\<lparr>acc_id := Some k\<rparr>) = Some (JOINT AT) \<longrightarrow>
         truthy_str (depositor_2 (a\<lparr>acc_id := Some k\<rparr>))))
   \<and> (truthy_str (account_type b) \<and> fst (update AT b st) = Inr () \<longrightarrow>
        (\<exists>row'. first_by_id (snd (update AT b st)) (acc_id b) = Some row' \<and>
                 (truthy_str (depositor_2 row') \<longleftrightarrow> account_type row' = Some (JOINT AT))))
   \<and> (\<not> truthy_str (account_type c) \<longrightarrow>
        map account_type (snd (update AT c st)) = map account_type st \<and>
        map depositor_2 (snd (update AT c st)) = map depositor_2 st)"
proof (intro conjI impI)
  assume s: "fst (save AT a st) = Inr k"
  from save_Inr [OF s] show "snd (save AT a st) = st @ [a\<lparr>acc_id := Some k\<rparr>]" by simp
next
  assume s: "fst (save AT a st) = Inr k"
    and j: "account_type (a\<lparr>acc_id := Some k\<rparr>) = Some (JOINT AT)"
  from save_Inr [OF s] obtain m where "is_valid AT a = Inr (True, m)" by blast
  moreover from j have "account_type a = Some (JOINT AT)" by simp
  ultimately have "truthy_str (depositor_2 a)" by (rule is_valid_True)
  then show "truthy_str (depositor_2 (a\<lparr>acc_id := Some k\<rparr>))" by simp
next
  assume h: "truthy_str (account_type b) \<and> fst (update AT b st) = Inr ()"
  then have t: "truthy_str (account_type b)" and s: "fst (update AT b st) = Inr ()"
    by blast+
  from update_Inr [OF s] obtain account a' where
    r: "update_row AT b account = (Inr (), a')" and
    f: "first_by_id (snd (update AT b st)) (acc_id b) = Some a'"
    by blast
  from t update_row_account_type [OF r] have ty: "account_type a' = account_type b"
    by simp
  from t update_row_depositor_2 [OF r] have dp: "depositor_2 a' =
      (if account_type b = Some (JOINT AT) then depositor_2 b else None)"
    by simp
  have "truthy_str (depositor_2 a') \<longleftrightarrow> account_type a' = Some (JOINT AT)"
  proof (cases "account_type b = Some (JOINT AT)")
    case True
    with dp have "depositor_2 a' = depositor_2 b" by simp
    moreover have "truthy_str (depositor_2 b)"
    proof (rule ccontr)
      assume "\<not> truthy_str (depositor_2 b)"
      with True t have "fst (update_row AT b account) =
          Inl (ValueError ''Since account type is joint, hence 2nd depositor is must'')"
        by (intro update_row_joint_fails)
      with r show False by simp
    qed
    ultimately show ?thesis using True ty by simp
  next
    case False
    with dp ty show ?thesis by (simp add: str_field_def)
  qed
  with f show "\<exists>row'. first_by_id (snd (update AT b st)) (acc_id b) = Some row' \<and>
                 (truthy_str (depositor_2 row') \<longleftrightarrow> account_type row' = Some (JOINT AT))"
    by blast
next
  assume "\<not> truthy_str (account_type c)"
  then show "map account_type (snd (update AT c st)) = map account_type st"
    by (simp add: update_frame_without_type)
next
  assume "\<not> truthy_str (account_type c)"
  then show "map depositor_2 (snd (update AT c st)) = map depositor_2 st"
    by (simp add: update_frame_without_type)
qed

theorem joint_invariant_amended_witness:
  "fst (save example_AccountType
          (example_account\<lparr>account_type := Some ''joint''\<rparr>) []) = Inr 1
   \<and> snd (save example_AccountType
          (example_account\<lparr>account_type := Some ''joint''\<rparr>) []) =
       [example_account\<lparr>acc_id := Some 1, account_type := Some ''joint''\<rparr>]
   \<and> truthy_str (depositor_2 (example_account\<lparr>acc_id := Some 1, account_type := Some ''joint''\<rparr>))
   \<and> fst (update example_AccountType
            (example_account\<lparr>acc_id := Some 1, account_number := None\<rparr>)
            example_joint_table) = Inr ()
   \<and> (\<exists>row'. first_by_id (snd (update example_AccountType
            (example_account\<lparr>acc_id := Some 1, account_number := None\<rparr>)
            example_joint_table)) (Some 1) = Some row' \<and>
          (truthy_str (depositor_2 row') \<longleftrightarrow> account_type row' = Some ''joint''))
   \<and> map depositor_2 (snd (update example_AccountType
        (example_account\<lparr>acc_id := Some 1, account_type := Some []\<rparr>) example_joint_table))
      = [Some ''Sita'']"
proof -
  let ?a = "example_account\<lparr>account_type := Some ''joint''\<rparr>"
  let ?b = "example_account\<lparr>acc_id := Some 1, account_number := None\<rparr>"
  let ?c = "example_account\<lparr>acc_id := Some 1, account_type := Some []\<rparr>"
  have s: "fst (save example_AccountType ?a []) = Inr 1"
    by (simp add: save_def is_valid_def required_fields_def is_valid_joint_account_def
        AccountType_call_def example_account_def example_AccountType_def str_field_def
        int_field_def get_scoped_session_def add_flush_def null_violation_def ids_def
        unique_violation_def changed_numbers_def)
  have j: "account_type (?a\<lparr>acc_id := Some 1\<rparr>) = Some (JOINT example_AccountType)"
    "JOINT example_AccountType = ''joint''"
    by (simp_all add: example_AccountType_def)
  have t: "truthy_str (account_type ?b)" "\<not> truthy_str (account_type ?c)"
    by (simp_all add: str_field_def example_account_def)
  have u: "fst (update example_AccountType ?b example_joint_table) = Inr ()"
    by (simp add: update_def get_scoped_session_def update_body_def first_by_id_def
        example_joint_table_def update_row_def update_type_def example_account_def
        example_AccountType_def str_field_def int_field_def unique_violation_def
        changed_numbers_def)
  have m: "map depositor_2 example_joint_table = [Some ''Sita'']"
    by (simp add: example_joint_table_def example_account_def)
  from joint_invariant_amended [where AT = example_AccountType and a = ?a and st = "[]"
      and k = 1 and b = ?b and c = ?c]
    joint_invariant_amended [where AT = example_AccountType and a = ?a
      and st = example_joint_table and k = 1 and b = ?b and c = ?c]
    s j t u m
  show ?thesis by simp
qed

text \<open>
  C2. (1) For every account whose six required fields are non-empty, whose \<open>account_type\<close>
  is JOINT and whose \<open>depositor_2\<close> is empty, \<open>save\<close> raises the validation error of
  \<open>_is_valid_joint_account\<close> and stores nothing. (2) Every \<open>update\<close> whose instance has the
  non-empty \<open>account_type\<close> JOINT and an empty \<open>depositor_2\<close> raises \<open>ValueError\<close>, the only
  exception class of the source, and stores nothing; whenever the record exists the error
  is the joint-rule error of line 51 (for an unknown identifier the check of line 42 comes
  first). (3) When \<open>update\<close> sets \<open>account_type\<close> to JOINT with a non-empty instance
  \<open>depositor_2\<close>, the stored row gets JOINT and the instance's \<open>depositor_2\<close>; such an
  update of an existing record is carried out unless it breaks the \<open>unique\<close> constraint of
  \<open>account_number\<close>.
\<close>

theorem joint_needs_depositor_2:
  "(list_all truthy (required_fields a) \<and> account_type a = Some (JOINT AT) \<and>
    \<not> truthy_str (depositor_2 a) \<longrightarrow>
      save AT a st =
        (Inl (ValueError (''Since account type is '' @ JOINT AT @
                          '', hence 2nd depositor is must'')), st))
   \<and> (truthy_str (account_type b) \<and> account_type b = Some (JOINT AT) \<and>
      \<not> truthy_str (depositor_2 b) \<longrightarrow>
        (\<exists>m. update AT b st = (Inl (ValueError m), st)) \<and>
        (first_by_id st (acc_id b) \<noteq> None \<longrightarrow>
           update AT b st =
             (Inl (ValueError ''Since account type is joint, hence 2nd depositor is must''),
              st)))
   \<and> (truthy_str (account_type c) \<and> account_type c = Some (JOINT AT) \<and>
      truthy_str (depositor_2 c) \<longrightarrow>
        (first_by_id st (acc_id c) \<noteq> None \<and>
         (\<not> truthy_str (account_number c) \<or>
          account_number c \<notin> account_number ` set st) \<longrightarrow>
           fst (update AT c st) = Inr ()) \<and>
        (fst (update AT c st) = Inr () \<longrightarrow>
           (\<exists>row'. first_by_id (snd (update AT c st)) (acc_id c) = Some row' \<and>
                    account_type row' = Some (JOINT AT) \<and>
                    depositor_2 row' = depositor_2 c)))"
proof (intro conjI impI)
  assume h: "list_all truthy (required_fields a) \<and> account_type a = Some (JOINT AT) \<and>
    \<not> truthy_str (depositor_2 a)"
  then have "is_valid AT a =
      Inr (False, ''Since account type is '' @ JOINT AT @ '', hence 2nd depositor is must'')"
    by (intro is_valid_joint_missing) blast+
  then show "save AT a st =
        (Inl (ValueError (''Since account type is '' @ JOINT AT @
                          '', hence 2nd depositor is must'')), st)"
    by (simp add: save_def)
next
  assume h: "truthy_str (account_type b) \<and> account_type b = Some (JOINT AT) \<and>
      \<not> truthy_str (depositor_2 b)"
  then have t: "truthy_str (account_type b)" and j: "account_type b = Some (JOINT AT)"
    and d: "\<not> truthy_str (depositor_2 b)" by blast+
  from update_joint_fails [OF t j d, of st]
  show "\<exists>m. update AT b st = (Inl (ValueError m), st)"
    by (cases "first_by_id st (acc_id b)") simp_all
next
  assume h: "truthy_str (account_type b) \<and> account_type b = Some (JOINT AT) \<and>
      \<not> truthy_str (depositor_2 b)"
    and f: "first_by_id st (acc_id b) \<noteq> None"
  from h have t: "truthy_str (account_type b)" and j: "account_type b = Some (JOINT AT)"
    and d: "\<not> truthy_str (depositor_2 b)" by blast+
  from update_joint_fails [OF t j d, of st] f
  show "update AT b st =
     (Inl (ValueError ''Since account type is joint, hence 2nd depositor is must''), st)"
    by (cases "first_by_id st (acc_id b)") simp_all
next
  assume h: "truthy_str (account_type c) \<and> account_type c = Some (JOINT AT) \<and>
      truthy_str (depositor_2 c)"
    and n: "first_by_id st (acc_id c) \<noteq> None \<and>
         (\<not> truthy_str (account_number c) \<or>
          account_number c \<notin> account_number ` set st)"
  from n obtain row where f: "first_by_id st (acc_id c) = Some row" by blast
  from h have "fst (update_row AT c row) = Inr ()"
    by (intro update_row_succeeds) simp
  with f have "update AT c st =
      (Inr (), put_row (acc_id c) (snd (update_row AT c row)) st)"
    using n by (intro update_succeeds) blast+
  then show "fst (update AT c st) = Inr ()" by simp
next
  assume h: "truthy_str (account_type c) \<and> account_type c = Some (JOINT AT) \<and>
      truthy_str (depositor_2 c)"
    and s: "fst (update AT c st) = Inr ()"
  from update_Inr [OF s] obtain account a' where
    r: "update_row AT c account = (Inr (), a')" and
    f: "first_by_id (snd (update AT c st)) (acc_id c) = Some a'"
    by blast
  from h have t: "truthy_str (account_type c)" and j: "account_type c = Some (JOINT AT)"
    by blast+
  from t update_row_depositor_2 [OF r] have "depositor_2 a' = depositor_2 c"
    by (simp add: j)
  moreover from t update_row_account_type [OF r] have "account_type a' = Some (JOINT AT)"
    by (simp add: j)
  ultimately show "\<exists>row'. first_by_id (snd (update AT c st)) (acc_id c) = Some row' \<and>
                    account_type row' = Some (JOINT AT) \<and>
                    depositor_2 row' = depositor_2 c"
    using f by blast
qed

theorem joint_needs_depositor_2_witness:
  "save example_AccountType
      (example_account\<lparr>account_type := Some ''joint'', depositor_2 := None\<rparr>) example_table =
     (Inl (ValueError ''Since account type is joint, hence 2nd depositor is must''),
      example_table)
   \<and> update example_AccountType
      (example_account\<lparr>acc_id := Some 1, account_type := Some ''joint'', depositor_2 := Some []\<rparr>)
      example_table =
     (Inl (ValueError ''Since account type is joint, hence 2nd depositor is must''),
      example_table)
   \<and> fst (update example_AccountType
        (example_account\<lparr>acc_id := Some 1, account_number := None,
                         account_type := Some ''joint'', depositor_2 := Some ''Gita''\<rparr>)
        example_table) = Inr ()
   \<and> (\<exists>row'. first_by_id (snd (update example_AccountType
        (example_account\<lparr>acc_id := Some 1, account_number := None,
                         account_type := Some ''joint'', depositor_2 := Some ''Gita''\<rparr>)
        example_table)) (Some 1) = Some row' \<and>
        account_type row' = Some ''joint'' \<and> depositor_2 row' = Some ''Gita'')"
proof -
  let ?a = "example_account\<lparr>account_type := Some ''joint'', depositor_2 := None\<rparr>"
  let ?b = "example_account\<lparr>acc_id := Some 1, account_type := Some ''joint'',
                            depositor_2 := Some []\<rparr>"
  let ?c = "example_account\<lparr>acc_id := Some 1, account_number := None,
                         account_type := Some ''joint'', depositor_2 := Some ''Gita''\<rparr>"
  have ra: "list_all truthy (required_fields ?a)"
    by (simp add: required_fields_def example_account_def str_field_def int_field_def)
  have ja: "account_type ?a = Some (JOINT example_AccountType)"
    "account_type ?b = Some (JOINT example_AccountType)"
    "account_type ?c = Some (JOINT example_AccountType)"
    by (simp_all add: example_AccountType_def)
  have t: "truthy_str (account_type ?b)" "truthy_str (account_type ?c)"
    by (simp_all add: str_field_def)
  have d: "\<not> truthy_str (depositor_2 ?a)" "\<not> truthy_str (depositor_2 ?b)"
    "truthy_str (depositor_2 ?c)"
    by (simp_all add: str_field_def)
  have f: "first_by_id example_table (acc_id ?b) \<noteq> None"
    "first_by_id example_table (acc_id ?c) \<noteq> None"
    by (simp_all add: first_by_id_def example_table_def)
  have n: "\<not> truthy_str (account_number ?c)" by (simp add: str_field_def)
  have j: "JOINT example_AccountType = ''joint''" by (simp add: example_AccountType_def)
  from joint_needs_depositor_2 [where AT = example_AccountType and st = example_table
      and a = ?a and b = ?b and c = ?c] ra ja t d f n j
  show ?thesis by simp
qed

text \<open>
  C3. For every identifier that matches no stored row, \<open>update\<close> raises the
  \<open>ValueError\<close> of line 42 (\<open>Unknown account id: ...\<close>, the spec's NotFoundError) and the
  stored table is the one before the call; the session's table was not touched either, so
  no row was modified or created.
\<close>

theorem update_unknown_id:
  assumes "first_by_id st (acc_id self) = None"
  shows "update AT self st =
           (Inl (ValueError (''Unknown account id: '' @ str_id (acc_id self))), st)
         \<and> snd (update_body AT self st) = st"
  using assms by (simp add: update_def get_scoped_session_def update_body_def)

theorem update_unknown_id_witness:
  "first_by_id example_table (acc_id (example_account\<lparr>acc_id := Some 7\<rparr>)) = None
   \<and> update example_AccountType (example_account\<lparr>acc_id := Some 7\<rparr>) example_table =
       (Inl (ValueError ''Unknown account id: 7''), example_table)"
proof -
  have h: "first_by_id example_table (acc_id (example_account\<lparr>acc_id := Some 7\<rparr>)) = None"
    by (simp add: first_by_id_def example_table_def example_account_def)
  have s: "str_id (Some 7) = ''7''"
    by (simp add: str_id_def str_int_def digits.simps)
  from update_unknown_id [OF h, of example_AccountType] h s show ?thesis by simp
qed

text \<open>
  C4, as stated, fails on the message: for the docstring's account with \<open>amount = 0\<close> the
  error of \<open>save\<close> is not a \<open>ValueError\<close> with the message \<open>required fields missing.\<close>
\<close>

theorem save_required_message_counterexample:
  "\<not> truthy_int (amount (example_account\<lparr>amount := Some 0\<rparr>)) \<and>
   fst (save example_AccountType (example_account\<lparr>amount := Some 0\<rparr>) []) \<noteq>
     Inl (ValueError ''required fields missing.'')"
  by (simp add: save_def is_valid_def required_fields_def example_account_def str_field_def
      int_field_def)

text \<open>
  C4, amended. For every account in which at least one of the six required fields is empty
  (\<open>None\<close>, the empty string, or the amount 0), \<open>save\<close> raises \<open>ValueError\<close> with the
  message of line 87, \<open>Please make sure required fields are filled correctly!\<close>, and no row
  is inserted: the stored table is unchanged.
\<close>

theorem save_required_fields_missing:
  assumes "\<not> truthy_str (account_number self) \<or> \<not> truthy_str (account_type self) \<or>
           \<not> truthy_str (depositor_1 self) \<or> \<not> truthy_int (amount self) \<or>
           \<not> truthy_str (maturity_date self) \<or> \<not> truthy_str (agent self)"
  shows "save AT self st =
           (Inl (ValueError ''Please make sure required fields are filled correctly!''), st)"
proof -
  from assms have "\<not> list_all truthy (required_fields self)"
    by (auto simp: required_fields_def)
  then have "required_loop (required_fields self) =
      Some (False, ''Please make sure required fields are filled correctly!'')"
    by (rule required_loop_Some)
  then show ?thesis by (simp add: save_def is_valid_def)
qed

theorem save_required_fields_missing_witness:
  "\<not> truthy_int (amount (example_account\<lparr>amount := Some 0\<rparr>)) \<and>
   save example_AccountType (example_account\<lparr>amount := Some 0\<rparr>) example_table =
     (Inl (ValueError ''Please make sure required fields are filled correctly!''),
      example_table)"
proof -
  have h: "\<not> truthy_int (amount (example_account\<lparr>amount := Some 0\<rparr>))"
    by (simp add: int_field_def)
  from save_required_fields_missing
         [of "example_account\<lparr>amount := Some 0\<rparr>" example_AccountType example_table] h
  show ?thesis by simp
qed

text \<open>
  C5, as stated, fails: \<open>account_number\<close> is declared \<open>unique\<close> (line 23). The stored
  joint account of Ram and Sita exists, and the instance has the non-empty type \<open>single\<close>,
  but it also sets the account number of the row under key 2: the commit raises
  \<open>IntegrityError\<close>, the table is as before, and the stored \<open>depositor_2\<close> is still Sita.
\<close>

theorem update_not_joint_counterexample:
  "first_by_id example_two_table
      (acc_id (example_account\<lparr>acc_id := Some 1, account_number := Some ''2000034567''\<rparr>)) =
     Some (example_account\<lparr>acc_id := Some 1, account_type := Some ''joint''\<rparr>) \<and>
   truthy_str (account_type
      (example_account\<lparr>acc_id := Some 1, account_number := Some ''2000034567''\<rparr>)) \<and>
   account_type (example_account\<lparr>acc_id := Some 1, account_number := Some ''2000034567''\<rparr>)
     \<noteq> Some (JOINT example_AccountType) \<and>
   update example_AccountType
      (example_account\<lparr>acc_id := Some 1, account_number := Some ''2000034567''\<rparr>)
      example_two_table = (Inl IntegrityError, example_two_table) \<and>
   first_by_id example_two_table (Some 1) =
     Some (example_account\<lparr>acc_id := Some 1, account_type := Some ''joint''\<rparr>) \<and>
   depositor_2 (example_account\<lparr>acc_id := Some 1, account_type := Some ''joint''\<rparr>) =
     Some ''Sita''"
  by (simp add: update_def get_scoped_session_def update_body_def first_by_id_def
        example_two_table_def update_row_def update_type_def example_account_def
        example_AccountType_def str_field_def int_field_def unique_violation_def
        changed_numbers_def)

text \<open>
  C5, amended. For every update of an existing record whose instance has a non-empty
  \<open>account_type\<close> other than JOINT and that returns without error, the stored row has the
  instance's \<open>account_type\<close> and no \<open>depositor_2\<close>, whatever \<open>depositor_2\<close> the instance
  carries. Such an update returns without error whenever the instance sets no account
  number or one that no stored row holds; the commit can only fail on the \<open>unique\<close>
  constraint of \<open>account_number\<close>.
\<close>

theorem update_not_joint_clears_depositor_2:
  assumes "first_by_id st (acc_id self) = Some row"
    and "truthy_str (account_type self)"
    and "account_type self \<noteq> Some (JOINT AT)"
  shows "(\<not> truthy_str (account_number self) \<or>
          account_number self \<notin> account_number ` set st
            \<longrightarrow> fst (update AT self st) = Inr ())
         \<and> (fst (update AT self st) = Inr () \<longrightarrow>
              (\<exists>row'. first_by_id (snd (update AT self st)) (acc_id self) = Some row' \<and>
                       account_type row' = account_type self \<and> depositor_2 row' = None))"
proof (intro conjI impI)
  assume n: "\<not> truthy_str (account_number self) \<or>
             account_number self \<notin> account_number ` set st"
  from assms(3) have "fst (update_row AT self row) = Inr ()"
    by (intro update_row_succeeds) simp
  with assms(1) have "update AT self st =
      (Inr (), put_row (acc_id self) (snd (update_row AT self row)) st)"
    using n by (rule update_succeeds)
  then show "fst (update AT self st) = Inr ()" by simp
next
  assume "fst (update AT self st) = Inr ()"
  from update_Inr [OF this] obtain account a' where
    r: "update_row AT self account = (Inr (), a')" and
    f: "first_by_id (snd (update AT self st)) (acc_id self) = Some a'"
    by blast
  from update_row_depositor_2 [OF r] assms have "depositor_2 a' = None" by simp
  moreover from update_row_account_type [OF r] assms
  have "account_type a' = account_type self"
    by simp
  ultimately show "\<exists>row'. first_by_id (snd (update AT self st)) (acc_id self) = Some row' \<and>
                       account_type row' = account_type self \<and> depositor_2 row' = None"
    using f by blast
qed

text \<open>
  The stored joint account of Ram and Sita is changed to a single account by an instance
  that still carries Sita as second depositor.
\<close>

theorem update_not_joint_clears_depositor_2_witness:
  "first_by_id example_joint_table (Some 1) =
     Some (example_account\<lparr>acc_id := Some 1, account_type := Some ''joint''\<rparr>)
   \<and> depositor_2 (example_account\<lparr>acc_id := Some 1, account_number := None\<rparr>) = Some ''Sita''
   \<and> fst (update example_AccountType
            (example_account\<lparr>acc_id := Some 1, account_number := None\<rparr>)
            example_joint_table) = Inr ()
   \<and> (\<exists>row'. first_by_id
                (snd (update example_AccountType
                       (example_account\<lparr>acc_id := Some 1, account_number := None\<rparr>)
                       example_joint_table)) (Some 1) = Some row' \<and>
              account_type row' = Some ''single'' \<and> depositor_2 row' = None)"
proof -
  let ?self = "example_account\<lparr>acc_id := Some 1, account_number := None\<rparr>"
  have f: "first_by_id example_joint_table (acc_id ?self) =
     Some (example_account\<lparr>acc_id := Some 1, account_type := Some ''joint''\<rparr>)"
    by (simp add: first_by_id_def example_joint_table_def)
  have t: "truthy_str (account_type ?self)"
    by (simp add: example_account_def str_field_def)
  have j: "account_type ?self \<noteq> Some (JOINT example_AccountType)"
    by (simp add: example_account_def example_AccountType_def)
  have n: "\<not> truthy_str (account_number ?self)"
    by (simp add: str_field_def)
  have d: "depositor_2 ?self = Some ''Sita''" and a: "account_type ?self = Some ''single''"
    by (simp_all add: example_account_def)
  from update_not_joint_clears_depositor_2 [OF f t j] n f d a show ?thesis
    by simp
qed

text \<open>
  C6. Whenever \<open>update\<close> or \<open>save\<close> raises (the \<open>ValueError\<close> of an unknown identifier or
  of a validation rule, the error of the enum coercion, or the \<open>IntegrityError\<close> of
  storage), the stored table after the call is the table before it. This holds in
  particular when \<open>update\<close> raises the joint-account error of line 51: at that moment the
  row of the session already carries the instance's \<open>account_number\<close> and \<open>account_type\<close>
  (lines 45 and 48), and the stored table is unchanged all the same. The rollback itself is
  the scoped session's, modelled from the spec.
\<close>

theorem failure_rolls_back:
  "(fst (update AT self st) = Inl e \<longrightarrow> snd (update AT self st) = st) \<and>
   (fst (save AT self' st') = Inl e' \<longrightarrow> snd (save AT self' st') = st') \<and>
   (first_by_id st (acc_id self) = Some row \<and> truthy_str (account_number self) \<and>
    truthy_str (account_type self) \<and> account_type self = Some (JOINT AT) \<and>
    \<not> truthy_str (depositor_2 self) \<longrightarrow>
      first_by_id (snd (update_body AT self st)) (acc_id self) =
        Some (row\<lparr>account_number := account_number self, account_type := account_type self\<rparr>) \<and>
      update AT self st =
        (Inl (ValueError ''Since account type is joint, hence 2nd depositor is must''), st))"
proof (intro conjI impI)
  assume "fst (update AT self st) = Inl e"
  then show "snd (update AT self st) = st"
    unfolding update_def by (rule scoped_Inl)
next
  assume "fst (save AT self' st') = Inl e'"
  then show "snd (save AT self' st') = st'" by (rule save_Inl)
next
  assume h: "first_by_id st (acc_id self) = Some row \<and> truthy_str (account_number self) \<and>
    truthy_str (account_type self) \<and> account_type self = Some (JOINT AT) \<and>
    \<not> truthy_str (depositor_2 self)"
  then have f: "first_by_id st (acc_id self) = Some row" by simp
  from h have ne: "JOINT AT \<noteq> []" by (auto simp: str_field_def)
  from h have "truthy_str (account_number self)" and "account_type self = Some (JOINT AT)"
    and "\<not> truthy_str (depositor_2 self)" by simp_all
  with ne have r: "snd (update_row AT self row) =
      row\<lparr>account_number := account_number self, account_type := account_type self\<rparr>"
    by (simp add: update_row_def update_type_def str_field_def)
  from h have t: "truthy_str (account_type self)" and j: "account_type self = Some (JOINT AT)"
    and d: "\<not> truthy_str (depositor_2 self)" by blast+
  have b: "update_body AT self st =
           (Inl (ValueError ''Since account type is joint, hence 2nd depositor is must''),
            put_row (acc_id self) (snd (update_row AT self row)) st)"
    using f t j d by (rule update_body_joint_fails)
  from f have "acc_id row = acc_id self" by (rule first_by_id_acc_id)
  then have "acc_id (row\<lparr>account_number := account_number self,
      account_type := account_type self\<rparr>) = acc_id self" by simp
  with f have "first_by_id (put_row (acc_id self)
      (row\<lparr>account_number := account_number self, account_type := account_type self\<rparr>) st)
      (acc_id self) =
      Some (row\<lparr>account_number := account_number self, account_type := account_type self\<rparr>)"
    by (rule first_by_id_put_row)
  with b r show "first_by_id (snd (update_body AT self st)) (acc_id self) =
        Some (row\<lparr>account_number := account_number self, account_type := account_type self\<rparr>)"
    by simp
  from update_joint_fails [OF t j d, of st] f
  show "update AT self st =
        (Inl (ValueError ''Since account type is joint, hence 2nd depositor is must''), st)"
    by simp
qed

theorem failure_rolls_back_witness:
  "first_by_id (snd (update_body example_AccountType
          (example_account\<lparr>acc_id := Some 1, account_number := Some ''2000034567'',
                           account_type := Some ''joint'', depositor_2 := None\<rparr>)
          example_table)) (Some 1) =
      Some (example_account\<lparr>acc_id := Some 1, account_number := Some ''2000034567'',
                            account_type := Some ''joint''\<rparr>)
   \<and> update example_AccountType
          (example_account\<lparr>acc_id := Some 1, account_number := Some ''2000034567'',
                           account_type := Some ''joint'', depositor_2 := None\<rparr>)
          example_table
       = (Inl (ValueError ''Since account type is joint, hence 2nd depositor is must''),
          example_table)
   \<and> fst (save example_AccountType example_account example_table) = Inl IntegrityError
   \<and> snd (save example_AccountType example_account example_table) = example_table"
proof -
  let ?self = "example_account\<lparr>acc_id := Some 1, account_number := Some ''2000034567'',
                           account_type := Some ''joint'', depositor_2 := None\<rparr>"
  have f: "first_by_id example_table (acc_id ?self) = Some (example_account\<lparr>acc_id := Some 1\<rparr>)"
    by (simp add: first_by_id_def example_table_def)
  have h: "truthy_str (account_number ?self)" "truthy_str (account_type ?self)"
    "account_type ?self = Some (JOINT example_AccountType)" "\<not> truthy_str (depositor_2 ?self)"
    by (simp_all add: str_field_def example_AccountType_def)
  have s: "fst (save example_AccountType example_account example_table) = Inl IntegrityError"
    by (simp add: save_def is_valid_def required_fields_def is_valid_joint_account_def
        AccountType_call_def example_account_def example_AccountType_def str_field_def
        int_field_def get_scoped_session_def add_flush_def null_violation_def
        example_table_def)
  from failure_rolls_back [where AT = example_AccountType and self = ?self
      and st = example_table and self' = example_account and st' = example_table
      and row = "example_account\<lparr>acc_id := Some 1\<rparr>"] f h s
  show ?thesis by simp
qed

text \<open>
  C7, as stated, fails: \<open>account_number\<close> is declared \<open>unique\<close> (line 23). The valid single
  account of the docstring, without second depositor, is not saved into a table that
  already holds its account number; the flush raises \<open>IntegrityError\<close>.
\<close>

theorem save_single_counterexample:
  "depositor_2 (example_account\<lparr>depositor_2 := None\<rparr>) = None \<and>
   list_all truthy (required_fields (example_account\<lparr>depositor_2 := None\<rparr>)) \<and>
   account_type (example_account\<lparr>depositor_2 := None\<rparr>) = Some (SINGLE example_AccountType) \<and>
   save example_AccountType (example_account\<lparr>depositor_2 := None\<rparr>) example_table =
     (Inl IntegrityError, example_table)"
  by (simp add: save_def is_valid_def required_fields_def is_valid_joint_account_def
        AccountType_call_def example_account_def example_AccountType_def str_field_def
        int_field_def get_scoped_session_def add_flush_def null_violation_def
        example_table_def)

text \<open>
  C7, amended. For every valid SINGLE account (all six required fields non-empty;
  a \<open>depositor_2\<close> may be absent or not) that has no identifier yet and whose
  \<open>account_number\<close> is held by no stored row, \<open>save\<close> succeeds: it appends the instance as
  a new row and returns the identifier that storage assigned to it, which is the key of no
  row stored before. (SINGLE and JOINT are taken to be different values.)
\<close>

theorem save_single:
  assumes "list_all truthy (required_fields self)"
    and "account_type self = Some (SINGLE AT)" and "SINGLE AT \<noteq> JOINT AT"
    and "acc_id self = None"
    and "account_number self \<notin> account_number ` set st"
  shows "save AT self st =
           (Inr (next_id (ids st)), st @ [self\<lparr>acc_id := Some (next_id (ids st))\<rparr>])
         \<and> (\<forall>r\<in>set st. acc_id r \<noteq> Some (next_id (ids st)))"
proof
  have v: "is_valid AT self = Inr (True, '''')"
    using assms(1-3) by (rule is_valid_single)
  from assms(1) have "\<not> null_violation self" by (rule required_not_null)
  with assms(4,5) have a: "add_flush self st =
      (Inr (next_id (ids st)), st @ [self\<lparr>acc_id := Some (next_id (ids st))\<rparr>])"
    by (auto simp: add_flush_def list_ex_iff Let_def image_iff)
  have "\<not> unique_violation st (st @ [self\<lparr>acc_id := Some (next_id (ids st))\<rparr>])"
    by (simp add: unique_violation_def changed_numbers_append)
  with a have "get_scoped_session (add_flush self) st =
      (Inr (next_id (ids st)), st @ [self\<lparr>acc_id := Some (next_id (ids st))\<rparr>])"
    by (rule scoped_ok)
  with v show "save AT self st =
           (Inr (next_id (ids st)), st @ [self\<lparr>acc_id := Some (next_id (ids st))\<rparr>])"
    by (simp add: save_def)
next
  have "next_id (ids st) \<notin> set (ids st)" by (rule next_id_fresh)
  then show "\<forall>r\<in>set st. acc_id r \<noteq> Some (next_id (ids st))"
    by (auto simp: ids_iff)
qed

theorem save_single_witness:
  "list_all truthy (required_fields (example_account\<lparr>depositor_2 := None\<rparr>)) \<and>
   save example_AccountType (example_account\<lparr>depositor_2 := None\<rparr>) [] =
     (Inr 1, [example_account\<lparr>acc_id := Some 1, depositor_2 := None\<rparr>]) \<and>
   save example_AccountType
     (example_account\<lparr>account_number := Some ''2000034567'', depositor_2 := None\<rparr>) example_table =
     (Inr 2, [example_account\<lparr>acc_id := Some 1\<rparr>,
              example_account\<lparr>acc_id := Some 2, account_number := Some ''2000034567'',
                              depositor_2 := None\<rparr>])"
proof -
  let ?a = "example_account\<lparr>depositor_2 := None\<rparr>"
  let ?b = "example_account\<lparr>account_number := Some ''2000034567'', depositor_2 := None\<rparr>"
  have r: "list_all truthy (required_fields ?a)" "list_all truthy (required_fields ?b)"
    by (simp_all add: required_fields_def example_account_def str_field_def int_field_def)
  have t: "account_type ?a = Some (SINGLE example_AccountType)"
    "account_type ?b = Some (SINGLE example_AccountType)"
    by (simp_all add: example_account_def example_AccountType_def)
  have d: "SINGLE example_AccountType \<noteq> JOINT example_AccountType"
    by (simp add: example_AccountType_def)
  have i: "acc_id ?a = None" "acc_id ?b = None" by (simp_all add: example_account_def)
  have n: "account_number ?a \<notin> account_number ` set []"
    "account_number ?b \<notin> account_number ` set example_table"
    by (simp_all add: example_table_def example_account_def)
  have k: "next_id (ids []) = 1" "next_id (ids example_table) = 2"
    by (simp_all add: ids_def example_table_def)
  from save_single [OF r(1) t(1) d i(1) n(1)] save_single [OF r(2) t(2) d i(2) n(2)] r k
  show ?thesis by (simp add: example_table_def)
qed

text \<open>
  C8. For every existing record, an update whose instance has only \<open>amount\<close> non-empty
  succeeds; the stored row becomes the row as it was with \<open>amount\<close> set to the instance's
  value, so its \<open>account_number\<close>, \<open>account_type\<close>, \<open>depositor_1\<close>, \<open>depositor_2\<close>,
  \<open>maturity_date\<close> and \<open>agent\<close> (and its key) are unchanged, and no other row changes.
  The instance's \<open>depositor_2\<close> is arbitrary.
\<close>

theorem update_amount_only:
  assumes "first_by_id st (acc_id self) = Some row"
    and "truthy_int (amount self)"
    and "\<not> truthy_str (account_number self)" and "\<not> truthy_str (account_type self)"
    and "\<not> truthy_str (depositor_1 self)" and "\<not> truthy_str (maturity_date self)"
    and "\<not> truthy_str (agent self)"
  shows "update AT self st = (Inr (), put_row (acc_id self) (row\<lparr>amount := amount self\<rparr>) st)
         \<and> first_by_id (snd (update AT self st)) (acc_id self) =
             Some (row\<lparr>amount := amount self\<rparr>)"
proof -
  have r: "update_row AT self row = (Inr (), row\<lparr>amount := amount self\<rparr>)"
    using assms by (simp add: update_row_def update_type_def)
  then have "fst (update_row AT self row) = Inr ()" by simp
  with assms(1) have "update AT self st =
      (Inr (), put_row (acc_id self) (snd (update_row AT self row)) st)"
    using assms(3) by (intro update_succeeds) simp_all
  with r have u: "update AT self st =
      (Inr (), put_row (acc_id self) (row\<lparr>amount := amount self\<rparr>) st)"
    by simp
  then have "fst (update AT self st) = Inr ()" by simp
  from update_Inr [OF this] assms(1) r u show ?thesis by auto
qed

theorem update_amount_only_witness:
  "first_by_id example_table (Some 1) = Some (example_account\<lparr>acc_id := Some 1\<rparr>) \<and>
   update example_AccountType
      \<lparr>acc_id = Some 1, account_number = None, account_type = None, depositor_1 = Some [],
       depositor_2 = Some ''Gita'', amount = Some 2500, maturity_date = None, agent = None\<rparr>
      example_table
   = (Inr (), [example_account\<lparr>acc_id := Some 1, amount := Some 2500\<rparr>])"
proof -
  let ?self = "\<lparr>acc_id = Some 1, account_number = None, account_type = None,
       depositor_1 = Some [], depositor_2 = Some ''Gita'', amount = Some 2500,
       maturity_date = None, agent = None\<rparr>"
  have f: "first_by_id example_table (acc_id ?self) = Some (example_account\<lparr>acc_id := Some 1\<rparr>)"
    by (simp add: first_by_id_def example_table_def)
  have "update example_AccountType ?self example_table =
          (Inr (), put_row (acc_id ?self)
                     (example_account\<lparr>acc_id := Some 1, amount := amount ?self\<rparr>) example_table)"
    using update_amount_only [OF f, of example_AccountType]
    by (simp add: str_field_def int_field_def)
  with f show ?thesis by (simp add: example_table_def)
qed

text \<open>
  C9. \<open>update\<close> writes \<open>depositor_2\<close> only in the branch of a non-empty \<open>account_type\<close>:
  when the instance's \<open>account_type\<close> is empty, the \<open>depositor_2\<close> of every stored row is
  after the call what it was before, whether the call returns or raises, and the call does
  not depend on the instance's \<open>depositor_2\<close> at all.
\<close>

theorem update_without_type_keeps_depositor_2:
  assumes "\<not> truthy_str (account_type self)"
  shows "map depositor_2 (snd (update AT self st)) = map depositor_2 st
         \<and> update AT (self\<lparr>depositor_2 := d\<rparr>) st = update AT self st"
proof
  from assms show "map depositor_2 (snd (update AT self st)) = map depositor_2 st"
    by (simp add: update_frame_without_type)
next
  have "update_body AT (self\<lparr>depositor_2 := d\<rparr>) = update_body AT self"
    using assms
    by (simp add: update_body_def fun_eq_iff update_row_ignores_depositor_2
        cong: option.case_cong)
  then show "update AT (self\<lparr>depositor_2 := d\<rparr>) st = update AT self st"
    by (simp add: update_def)
qed

theorem update_without_type_keeps_depositor_2_witness:
  "\<not> truthy_str (account_type
        (example_account\<lparr>acc_id := Some 1, account_type := None, depositor_2 := None\<rparr>))
   \<and> map depositor_2 (snd (update example_AccountType
         (example_account\<lparr>acc_id := Some 1, account_type := None, depositor_2 := None\<rparr>)
         example_table))
       = [Some ''Sita'']"
  using update_without_type_keeps_depositor_2
    [of "example_account\<lparr>acc_id := Some 1, account_type := None, depositor_2 := None\<rparr>"
        example_AccountType example_table]
  by (simp add: str_field_def example_table_def example_account_def)

text \<open>
  C10. For every account whose six required fields are all non-empty and whose
  \<open>account_type\<close> is the value of no member of the enumeration, \<open>save\<close> raises the error of
  the coercion \<^verbatim>\<open>AccountType(self.account_type)\<close> in \<open>_is_valid_joint_account\<close>: the
  exception passes through \<open>_is_valid\<close> and \<open>save\<close>, no \<open>ValueError\<close> with a message of the
  two validation rules is raised, and nothing is stored.
\<close>

theorem save_unknown_account_type:
  assumes "list_all truthy (required_fields self)"
    and "account_type self = Some v" and "v \<noteq> SINGLE AT" and "v \<noteq> JOINT AT"
  shows "save AT self st = (Inl (EnumValueError (Some v)), st)"
proof -
  from assms(1) have "required_loop (required_fields self) = None"
    by (simp add: required_loop_None)
  moreover from assms(2-4)
  have "is_valid_joint_account AT self = Inl (EnumValueError (Some v))"
    by (simp add: is_valid_joint_account_def AccountType_call_def)
  ultimately show ?thesis by (simp add: save_def is_valid_def)
qed

theorem save_unknown_account_type_witness:
  "list_all truthy (required_fields (example_account\<lparr>account_type := Some ''bogus''\<rparr>))
   \<and> save example_AccountType (example_account\<lparr>account_type := Some ''bogus''\<rparr>) [] =
       (Inl (EnumValueError (Some ''bogus'')), [])"
proof -
  let ?self = "example_account\<lparr>account_type := Some ''bogus''\<rparr>"
  have r: "list_all truthy (required_fields ?self)"
    by (simp add: required_fields_def example_account_def str_field_def int_field_def)
  have t: "account_type ?self = Some ''bogus''" by simp
  have "''bogus'' \<noteq> SINGLE example_AccountType" and "''bogus'' \<noteq> JOINT example_AccountType"
    by (simp_all add: example_AccountType_def)
  from save_unknown_account_type [OF r t this] r show ?thesis by simp
qed

end
